theory Spec2Isabelle
  imports Main "HOL-Library.Sublist"
begin

section \<open>Strings\<close>

text \<open>
  A Python \<open>str\<close> is a sequence of Unicode code points, and \<open>len\<close>, slicing and the
  \<open>re\<close> module all count code points. A code point is modelled as a natural number and a
  string as a list of them, so that the statements below range over every Python string
  and not only over 8-bit ones. \<open>str\<close> turns an ASCII literal into such a list.
\<close>

type_synonym pychar = nat
type_synonym pystr = "pychar list"

definition str :: "string \<Rightarrow> pystr" where
  "str s = map of_char s"

text \<open>
  \<open>re.sub(r'[...]', '', s)\<close> with a one-character class as the pattern and the empty
  replacement: the scan goes left to right, a matching character is replaced by nothing,
  any other character is copied.
\<close>

fun re_sub_class :: "(pychar \<Rightarrow> bool) \<Rightarrow> pystr \<Rightarrow> pystr" where
  "re_sub_class matches [] = []"
| "re_sub_class matches (c # cs) =
     (if matches c then re_sub_class matches cs else c # re_sub_class matches cs)"

text \<open>
  \<open>s.replace(old, new)\<close>: one pass from the left over non-overlapping occurrences. At
  an occurrence of \<open>old\<close> the replacement is emitted and the scan resumes behind the
  occurrence; the text already emitted is never looked at again. With an empty \<open>old\<close>
  Python puts \<open>new\<close> before every character and at the end.
\<close>

function py_replace :: "pystr \<Rightarrow> pystr \<Rightarrow> pystr \<Rightarrow> pystr" where
  "py_replace old new s =
     (if old = [] then concat (map (\<lambda>c. new @ [c]) s) @ new
      else if s = [] then []
      else if prefix old s then new @ py_replace old new (drop (length old) s)
      else hd s # py_replace old new (tl s))"
  by pat_completeness auto
termination
  by (relation "measure (\<lambda>(old, new, s). length s)") auto

declare py_replace.simps [simp del]

section \<open>Path confinement: sanitizers\<close>

text \<open>
  \<open>\s\<close> in a Python 3 \<open>str\<close> pattern is Unicode whitespace: the characters for which
  \<open>str.isspace\<close> holds. Below 128 these are TAB, LF, VT, FF, CR, the separators
  28 to 31 and the space; above, NEL (133), NBSP (160), U+1680, U+2000 to U+200A,
  U+2028, U+2029, U+202F, U+205F and U+3000.
\<close>

definition py_isspace :: "pychar \<Rightarrow> bool" where
  "py_isspace c =
     ((9 \<le> c \<and> c \<le> 13) \<or> (28 \<le> c \<and> c \<le> 32) \<or> c = 133 \<or> c = 160 \<or> c = 5760 \<or>
      (8192 \<le> c \<and> c \<le> 8202) \<or> c = 8232 \<or> c = 8233 \<or> c = 8239 \<or> c = 8287 \<or>
      c = 12288)"

text \<open>
  The class \<open>[^a-zA-Z0-9\s\-_.,!?()\'"]\<close> of \<open>sanitize_name\<close>: \<open>name_safe\<close> is what
  stands behind the \<open>^\<close>, the pattern matches every other character. 39 is the
  apostrophe and 34 the double quote.
\<close>

definition name_safe :: "pychar \<Rightarrow> bool" where
  "name_safe c =
     ((97 \<le> c \<and> c \<le> 122) \<or> (65 \<le> c \<and> c \<le> 90) \<or> (48 \<le> c \<and> c \<le> 57) \<or>
      py_isspace c \<or> c \<in> set (str ''-_.,!?()'') \<or> c = 39 \<or> c = 34)"

definition sanitize_name :: "pystr \<Rightarrow> pystr" where
  "sanitize_name name =
     (let sanitized = re_sub_class (\<lambda>c. \<not> name_safe c) name
      in take 200 sanitized)"

text \<open>
  The class \<open>[/\\:*?"<>|]\<close> of \<open>sanitize_output\<close>: slash, backslash (92), colon, star,
  question mark, double quote (34), angle brackets and bar.
\<close>

definition output_unsafe_chars :: "pychar list" where
  "output_unsafe_chars = str ''/'' @ [92] @ str '':*?'' @ [34] @ str ''<>|''"

definition output_unsafe :: "pychar \<Rightarrow> bool" where
  "output_unsafe c = (c \<in> set output_unsafe_chars)"

definition sanitize_output :: "pystr \<Rightarrow> pystr" where
  "sanitize_output output =
     (let sanitized = re_sub_class output_unsafe output;
          sanitized = py_replace (str ''..'') [] sanitized
      in take 100 sanitized)"

section \<open>Policy tables\<close>

text \<open>
  The tables are Python sets of strings. The four tables of the validator are only asked
  for membership and searched for a match, none of which depends on the order of
  iteration, so each is a list in the order of the source. \<open>ALLOWED_OUTPUT_DIRS\<close>
  is iterated by code that can raise in the middle of the loop and is joined into a
  message, both of which depend on the order, and the order of a set of strings changes
  with the hash seed of the process: it is a set, and the functions that iterate over it
  take the order of this run as an argument.
\<close>

definition ALLOWED_IMPORTS :: "pystr list" where
  "ALLOWED_IMPORTS = map str
     [''diagrams'',
      ''diagrams.azure'', ''diagrams.azure.aimachinelearning'', ''diagrams.azure.analytics'',
      ''diagrams.azure.azurestack'', ''diagrams.azure.blockchain'', ''diagrams.azure.compute'',
      ''diagrams.azure.containers'', ''diagrams.azure.database'', ''diagrams.azure.databases'',
      ''diagrams.azure.devops'', ''diagrams.azure.general'', ''diagrams.azure.identity'',
      ''diagrams.azure.integration'', ''diagrams.azure.intune'', ''diagrams.azure.iot'',
      ''diagrams.azure.managementgovernance'', ''diagrams.azure.migration'',
      ''diagrams.azure.mixedreality'', ''diagrams.azure.ml'', ''diagrams.azure.monitor'',
      ''diagrams.azure.network'', ''diagrams.azure.networking'', ''diagrams.azure.security'',
      ''diagrams.azure.storage'', ''diagrams.azure.web'',
      ''diagrams.onprem'', ''diagrams.onprem.client'', ''diagrams.onprem.compute'',
      ''diagrams.onprem.database'', ''diagrams.onprem.network'',
      ''diagrams.generic'', ''diagrams.generic.blank'', ''diagrams.generic.compute'',
      ''diagrams.generic.database'', ''diagrams.generic.storage'',
      ''diagrams.programming'', ''diagrams.programming.flowchart'',
      ''diagrams.saas'', ''diagrams.saas.chat'', ''diagrams.saas.erp'', ''diagrams.saas.cdn'',
      ''diagrams.custom'',
      ''graphviz'',
      ''matplotlib'', ''matplotlib.pyplot'', ''matplotlib.patches'', ''matplotlib.dates'',
      ''numpy'',
      ''svgwrite'', ''cairosvg'',
      ''datetime'', ''collections'', ''pathlib'']"

definition BLOCKED_BUILTINS :: "pystr list" where
  "BLOCKED_BUILTINS = map str
     [''exec'', ''eval'', ''compile'', ''open'', ''__import__'',
      ''globals'', ''locals'', ''vars'', ''dir'',
      ''getattr'', ''setattr'', ''delattr'', ''hasattr'',
      ''breakpoint'', ''input'', ''help'']"

definition BLOCKED_ATTRIBUTES :: "pystr list" where
  "BLOCKED_ATTRIBUTES = map str
     [''__class__'', ''__bases__'', ''__subclasses__'', ''__globals__'',
      ''__code__'', ''__builtins__'', ''__import__'', ''__loader__'',
      ''__spec__'', ''__dict__'', ''__mro__'', ''__init_subclass__'']"

definition BLOCKED_IMPORTS :: "pystr list" where
  "BLOCKED_IMPORTS = map str
     [''os'', ''sys'', ''subprocess'', ''socket'', ''urllib'', ''requests'',
      ''http'', ''pickle'', ''shelve'', ''ctypes'', ''importlib'',
      ''shutil'', ''glob'', ''fnmatch'', ''io'', ''builtins'',
      ''code'', ''codeop'', ''marshal'', ''types'']"

definition ALLOWED_OUTPUT_DIRS :: "pystr set" where
  "ALLOWED_OUTPUT_DIRS =
     {str ''.'', str ''/mnt/user-data/outputs'', str ''/tmp'', str ''~/outputs''}"

definition EXECUTION_TIMEOUT :: int where
  "EXECUTION_TIMEOUT = 60"

text \<open>
  The validator reads the four capability tables as module globals. They are passed to
  it as one record, so that a statement can speak of every policy or of a particular one;
  \<open>policy\<close> is the record of the tables of the source.
\<close>

record policy =
  allowed_imports :: "pystr list"
  blocked_imports :: "pystr list"
  blocked_builtins :: "pystr list"
  blocked_attributes :: "pystr list"

definition policy :: policy where
  "policy = \<lparr>allowed_imports = ALLOWED_IMPORTS, blocked_imports = BLOCKED_IMPORTS,
     blocked_builtins = BLOCKED_BUILTINS, blocked_attributes = BLOCKED_ATTRIBUTES\<rparr>"

section \<open>Static validator\<close>

text \<open>
  \<open>s.split(sep)\<close> for a one-character separator: the pieces between the separators,
  empty pieces included; the result is never empty.
\<close>

fun py_split :: "pychar \<Rightarrow> pystr \<Rightarrow> pystr list" where
  "py_split sep [] = [[]]"
| "py_split sep (c # cs) =
     (if c = sep then [] # py_split sep cs
      else (case py_split sep cs of [] \<Rightarrow> [[c]] | w # ws \<Rightarrow> (c # w) # ws))"

text \<open>
  The loop \<open>for allowed in ALLOWED_IMPORTS: if module_name.startswith(allowed + "."):
  return True\<close> of \<open>_is_allowed_import\<close>, and the function itself. 46 is the dot.
\<close>

fun is_submodule_of_allowed :: "pystr \<Rightarrow> pystr list \<Rightarrow> bool" where
  "is_submodule_of_allowed module_name [] = False"
| "is_submodule_of_allowed module_name (allowed # rest) =
     (if prefix (allowed @ str ''.'') module_name then True
      else is_submodule_of_allowed module_name rest)"

definition is_allowed_import :: "policy \<Rightarrow> pystr \<Rightarrow> bool" where
  "is_allowed_import P module_name =
     (let base_module = hd (py_split 46 module_name) in
      if base_module \<in> set (blocked_imports P) then False
      else if module_name \<in> set (allowed_imports P) then True
      else is_submodule_of_allowed module_name (allowed_imports P))"

text \<open>
  The syntax tree, as far as the visitor tells node kinds apart. \<open>Import\<close> carries the
  names of its aliases, \<open>ImportFrom\<close> its module (\<open>None\<close> for \<open>from . import x\<close>) and
  the names of its aliases; alias nodes have no children and no visitor method.
  \<open>Call\<close> carries its \<open>func\<close> and then its arguments and keywords in the order in
  which \<open>generic_visit\<close> meets them, \<open>Attribute\<close> its \<open>value\<close> and \<open>attr\<close>,
  \<open>Name\<close> its \<open>id\<close>. Every other kind of node is \<open>Other\<close> with its child nodes.
\<close>

datatype node =
    Import "pystr list"
  | ImportFrom "pystr option" "pystr list"
  | Call node "node list"
  | Attribute node pystr
  | Name pystr
  | Other "node list"

definition blocked_import_msg :: "pystr \<Rightarrow> pystr" where
  "blocked_import_msg module_name = str ''Blocked import: '' @ [39] @ module_name @ [39]"

definition blocked_builtin_msg :: "pystr \<Rightarrow> pystr" where
  "blocked_builtin_msg name = str ''Blocked builtin call: '' @ [39] @ name @ str ''()'' @ [39]"

definition blocked_attribute_msg :: "pystr \<Rightarrow> pystr" where
  "blocked_attribute_msg attr = str ''Blocked attribute access: '' @ [39] @ attr @ [39]"

definition syntax_error_msg :: "pystr \<Rightarrow> pystr" where
  "syntax_error_msg e = str ''Syntax error: '' @ e"

text \<open>
  \<open>CodeValidator.visit\<close>: the dispatch of \<open>ast.NodeVisitor\<close> on the kind of the node,
  with \<open>self.errors\<close> passed through. Every \<open>visit_X\<close> of the source ends in
  \<open>generic_visit\<close>, which visits the child nodes in order.
\<close>

fun visit :: "policy \<Rightarrow> node \<Rightarrow> pystr list \<Rightarrow> pystr list" where
  "visit P (Import names) errors =
     fold (\<lambda>module_name errors.
             if \<not> is_allowed_import P module_name
             then errors @ [blocked_import_msg module_name] else errors)
       names errors"
| "visit P (ImportFrom module names) errors =
     (case module of
        None \<Rightarrow> errors
      | Some m \<Rightarrow>
          if m \<noteq> [] \<and> \<not> is_allowed_import P m then errors @ [blocked_import_msg m]
          else errors)"
| "visit P (Call func args) errors =
     (let errors =
        (case func of
           Name ident \<Rightarrow>
             if ident \<in> set (blocked_builtins P) then errors @ [blocked_builtin_msg ident]
             else errors
         | Attribute v attr \<Rightarrow>
             if attr \<in> set (blocked_builtins P) then errors @ [blocked_builtin_msg attr]
             else errors
         | _ \<Rightarrow> errors)
      in fold (visit P) (func # args) errors)"
| "visit P (Attribute v attr) errors =
     (let errors =
        (if attr \<in> set (blocked_attributes P) then errors @ [blocked_attribute_msg attr]
         else errors)
      in visit P v errors)"
| "visit P (Name ident) errors = errors"
| "visit P (Other children) errors = fold (visit P) children errors"

text \<open>
  Exceptions that leave a function of the source because nothing in it catches them.
\<close>

datatype exn =
    ValueError
  | UnicodeEncodeError
  | UnicodeDecodeError
  | RecursionError
  | MemoryError
  | RuntimeError
  | OSError

text \<open>
  \<open>ast.parse\<close> is the parser of the Python library. It returns a tree, or raises
  \<open>SyntaxError\<close> (with the text \<open>str(e)\<close>), or raises something else. What is known
  of it here is one step: it hands the string to the compiler, which encodes it as UTF-8
  before the grammar sees it, and a surrogate code point (U+D800 to U+DFFF) cannot be
  encoded, so that \<open>UnicodeEncodeError\<close> is raised. The grammar is a parameter.
\<close>

datatype parse_outcome =
    Parsed node
  | SyntaxError pystr
  | ParseRaises exn

definition is_surrogate :: "pychar \<Rightarrow> bool" where
  "is_surrogate c = (55296 \<le> c \<and> c \<le> 57343)"

definition ast_parse :: "(pystr \<Rightarrow> parse_outcome) \<Rightarrow> pystr \<Rightarrow> parse_outcome" where
  "ast_parse grammar code =
     (if list_ex is_surrogate code then ParseRaises UnicodeEncodeError else grammar code)"

text \<open>
  The interpreter the validator runs in: its parser, and how deep a tree the visitor can
  walk. Every level of the tree costs the visitor a fixed number of nested calls
  (\<open>visit\<close>, \<open>visit_X\<close>, \<open>generic_visit\<close>), and past the recursion limit of the
  interpreter the innermost call raises \<open>RecursionError\<close>, which nothing in the visitor
  or in \<open>validate\<close> catches. \<open>depth\<close> counts the levels of a tree.
\<close>

record interpreter =
  parse :: "pystr \<Rightarrow> parse_outcome"
  max_depth :: nat

fun depth :: "node \<Rightarrow> nat" where
  "depth (Call func args) = Suc (fold max (map depth (func # args)) 0)"
| "depth (Attribute v attr) = Suc (depth v)"
| "depth (Other children) = Suc (fold max (map depth children) 0)"
| "depth n = Suc 0"

text \<open>
  \<open>CodeValidator.validate\<close>: the \<open>try\<close> holds the parse and the visit, its one
  handler is \<open>except SyntaxError\<close>; every other exception leaves the function.
  \<open>visit\<close> above is the traversal that stays within the recursion limit.
\<close>

definition validate :: "policy \<Rightarrow> interpreter \<Rightarrow> pystr \<Rightarrow> exn + pystr list" where
  "validate P py code =
     (case parse py code of
        Parsed tree \<Rightarrow>
          if depth tree \<le> max_depth py then Inr (visit P tree []) else Inl RecursionError
      | SyntaxError e \<Rightarrow> Inr ([] @ [syntax_error_msg e])
      | ParseRaises x \<Rightarrow> Inl x)"

definition validate_code :: "policy \<Rightarrow> interpreter \<Rightarrow> pystr \<Rightarrow> exn + bool \<times> pystr list" where
  "validate_code P py code =
     (case validate P py code of
        Inl x \<Rightarrow> Inl x
      | Inr errors \<Rightarrow> Inr (length errors = 0, errors))"

text \<open>
  An example interpreter: the grammar gives one fixed outcome, and the visitor can walk
  300 levels (a recursion limit of 1000 at three calls a level, less the calls already on
  the stack). \<open>attribute_chain n\<close> is the tree of \<open>x.a.a\<close> ... with \<open>n\<close> attributes.
\<close>

definition example_py :: "parse_outcome \<Rightarrow> interpreter" where
  "example_py outcome = \<lparr>parse = ast_parse (\<lambda>code. outcome), max_depth = 300\<rparr>"

fun attribute_chain :: "nat \<Rightarrow> node" where
  "attribute_chain 0 = Name (str ''x'')"
| "attribute_chain (Suc n) = Attribute (attribute_chain n) (str ''a'')"

text \<open>
  What an exhaustive inspection reports, stated without the visitor: the nodes of a tree
  in the order of a pre-order walk, and the findings at one node, looked at alone.
\<close>

fun subtrees :: "node \<Rightarrow> node list" where
  "subtrees (Call func args) = Call func args # concat (map subtrees (func # args))"
| "subtrees (Attribute v attr) = Attribute v attr # subtrees v"
| "subtrees (Other children) = Other children # concat (map subtrees children)"
| "subtrees n = [n]"

fun violations_at :: "policy \<Rightarrow> node \<Rightarrow> pystr list" where
  "violations_at P (Import names) =
     map blocked_import_msg (filter (\<lambda>m. \<not> is_allowed_import P m) names)"
| "violations_at P (ImportFrom (Some m) names) =
     (if m \<noteq> [] \<and> \<not> is_allowed_import P m then [blocked_import_msg m] else [])"
| "violations_at P (Call (Name ident) args) =
     (if ident \<in> set (blocked_builtins P) then [blocked_builtin_msg ident] else [])"
| "violations_at P (Call (Attribute v attr) args) =
     (if attr \<in> set (blocked_builtins P) then [blocked_builtin_msg attr] else [])"
| "violations_at P (Attribute v attr) =
     (if attr \<in> set (blocked_attributes P) then [blocked_attribute_msg attr] else [])"
| "violations_at P n = []"



section \<open>Path confinement: the output path\<close>

text \<open>
  \<open>sep.join(xs)\<close>.
\<close>

fun py_join :: "pystr \<Rightarrow> pystr list \<Rightarrow> pystr" where
  "py_join sep [] = []"
| "py_join sep [x] = x"
| "py_join sep (x # y # ys) = x @ sep @ py_join sep (y # ys)"

text \<open>
  \<open>validate_output_path\<close> asks \<open>pathlib\<close> and the file system three things: the
  canonical absolute form of a path (\<open>Path(p).resolve()\<close>, which follows symbolic links),
  the expansion of a leading \<open>~\<close> (\<open>expanduser\<close>) and the working directory
  (\<open>Path.cwd()\<close>). They are the fields of \<open>fs_env\<close>. Each of them can raise, and the
  source calls none of them inside a \<open>try\<close> that would catch it. A resolved path is
  the list of its components below the root, and \<open>path.relative_to(other)\<close> returns,
  instead of raising \<open>ValueError\<close>, exactly when the components of \<open>other\<close> are a
  prefix of those of \<open>path\<close>.
\<close>

record fs_env =
  resolve :: "pystr \<Rightarrow> exn + pystr list"
  expanduser :: "pystr \<Rightarrow> exn + pystr"
  cwd :: "exn + pystr list"

definition relative_to :: "pystr list \<Rightarrow> pystr list \<Rightarrow> bool" where
  "relative_to path other = prefix other path"

text \<open>
  \<open>Path(allowed).expanduser().resolve()\<close>, and the loop over \<open>ALLOWED_OUTPUT_DIRS\<close>
  in the order \<open>dirs\<close> of this run: \<open>True\<close> when some directory made the function
  return, \<open>False\<close> when the loop ran to its end, an exception when resolving a
  directory raised before any earlier one had matched.
\<close>

definition allowed_path :: "fs_env \<Rightarrow> pystr \<Rightarrow> exn + pystr list" where
  "allowed_path env allowed =
     (case expanduser env allowed of
        Inl x \<Rightarrow> Inl x
      | Inr expanded \<Rightarrow> resolve env expanded)"

fun in_allowed_dirs :: "fs_env \<Rightarrow> pystr list \<Rightarrow> pystr list \<Rightarrow> exn + bool" where
  "in_allowed_dirs env path [] = Inr False"
| "in_allowed_dirs env path (allowed # rest) =
     (case allowed_path env allowed of
        Inl x \<Rightarrow> Inl x
      | Inr root \<Rightarrow>
          if relative_to path root then Inr True
          else in_allowed_dirs env path rest)"

definition not_allowed_msg :: "pystr list \<Rightarrow> pystr" where
  "not_allowed_msg dirs =
     str ''Output path not allowed. Allowed directories: '' @ py_join (str '', '') dirs"

definition validate_output_path ::
  "fs_env \<Rightarrow> pystr list \<Rightarrow> pystr \<Rightarrow> exn + bool \<times> pystr option" where
  "validate_output_path env dirs output_path =
     (case resolve env output_path of
        Inl x \<Rightarrow> Inl x
      | Inr path \<Rightarrow>
          (case in_allowed_dirs env path dirs of
             Inl x \<Rightarrow> Inl x
           | Inr True \<Rightarrow> Inr (True, None)
           | Inr False \<Rightarrow>
               (case cwd env of
                  Inl x \<Rightarrow> Inl x
                | Inr working \<Rightarrow>
                    if relative_to path working then Inr (True, None)
                    else Inr (False, Some (not_allowed_msg dirs)))))"

text \<open>
  What the claims call being inside the allowed roots: the resolved path is at or below
  the working directory or the resolved form of one of the directories of the table.
\<close>

definition under_allowed :: "fs_env \<Rightarrow> pystr list \<Rightarrow> pystr list \<Rightarrow> bool" where
  "under_allowed env working path =
     (prefix working path \<or>
      (\<exists>d\<in>ALLOWED_OUTPUT_DIRS. \<exists>root. allowed_path env d = Inr root \<and> prefix root path))"


subsection \<open>A POSIX file system\<close>

text \<open>
  A concrete \<open>fs_env\<close>, to run \<open>validate_output_path\<close> on: a working directory, a
  home directory (if the process has one) and a table of symbolic links, each from the
  canonical location of the link to its canonical target. \<open>path_parts\<close> are the
  components \<open>pathlib\<close> keeps of a string (empty components and \<open>.\<close> are dropped,
  \<open>..\<close> stays); \<open>walk\<close> resolves them from the left as \<open>realpath\<close> does: \<open>..\<close>
  goes to the parent of what has been resolved so far, a component that is a link is
  replaced by its target. \<open>resolve\<close> raises \<open>ValueError\<close> (embedded null byte) on a
  string that holds the code point 0, and \<open>expanduser\<close> raises \<open>RuntimeError\<close> on
  \<open>~\<close> when there is no home directory. 47 is the slash.
\<close>

record posix_fs =
  fs_cwd :: "pystr list"
  fs_home :: "pystr option"
  fs_symlinks :: "(pystr list \<times> pystr list) list"

definition path_parts :: "pystr \<Rightarrow> pystr list" where
  "path_parts s = filter (\<lambda>p. p \<noteq> [] \<and> p \<noteq> str ''.'') (py_split 47 s)"

definition is_absolute :: "pystr \<Rightarrow> bool" where
  "is_absolute s = (case s of [] \<Rightarrow> False | c # _ \<Rightarrow> c = 47)"

fun walk :: "(pystr list \<times> pystr list) list \<Rightarrow> pystr list \<Rightarrow> pystr list \<Rightarrow> pystr list" where
  "walk links cur [] = cur"
| "walk links cur (p # ps) =
     (if p = str ''..'' then walk links (butlast cur) ps
      else (case map_of links (cur @ [p]) of
              None \<Rightarrow> walk links (cur @ [p]) ps
            | Some target \<Rightarrow> walk links target ps))"

definition posix_resolve :: "posix_fs \<Rightarrow> pystr \<Rightarrow> exn + pystr list" where
  "posix_resolve fs s =
     (if 0 \<in> set s then Inl ValueError
      else Inr (walk (fs_symlinks fs) (if is_absolute s then [] else fs_cwd fs)
                  (path_parts s)))"

definition posix_expanduser :: "posix_fs \<Rightarrow> pystr \<Rightarrow> exn + pystr" where
  "posix_expanduser fs s =
     (if s = str ''~'' \<or> prefix (str ''~/'') s then
        (case fs_home fs of
           None \<Rightarrow> Inl RuntimeError
         | Some home \<Rightarrow> Inr (home @ drop 1 s))
      else Inr s)"

definition posix_env :: "posix_fs \<Rightarrow> fs_env" where
  "posix_env fs =
     \<lparr>resolve = posix_resolve fs, expanduser = posix_expanduser fs, cwd = Inr (fs_cwd fs)\<rparr>"

text \<open>
  An example: the working directory is \<open>/work\<close>, the home directory \<open>/home/user\<close>,
  \<open>/work/link\<close> is a symbolic link to \<open>/etc\<close> and \<open>/work/latest\<close> one to
  \<open>/tmp/run1\<close>. \<open>source_order\<close> is one order of iteration over the table.
\<close>

definition example_fs :: posix_fs where
  "example_fs =
     \<lparr>fs_cwd = [str ''work''], fs_home = Some (str ''/home/user''),
      fs_symlinks = [([str ''work'', str ''link''], [str ''etc'']),
                     ([str ''work'', str ''latest''], [str ''tmp'', str ''run1''])]\<rparr>"

definition source_order :: "pystr list" where
  "source_order = map str [''.'', ''/mnt/user-data/outputs'', ''/tmp'', ''~/outputs'']"

section \<open>Sandboxed executor\<close>

text \<open>
  The decimal text of an integer, for the \<open>{timeout}\<close> of an f-string.
\<close>

function py_str_nat :: "nat \<Rightarrow> pystr" where
  "py_str_nat n = (if n < 10 then [48 + n] else py_str_nat (n div 10) @ [48 + n mod 10])"
  by pat_completeness auto
termination
  by (relation "measure id") auto

declare py_str_nat.simps [simp del]

definition py_str_int :: "int \<Rightarrow> pystr" where
  "py_str_int i = (if i < 0 then 45 # py_str_nat (nat (- i)) else py_str_nat (nat i))"

text \<open>
  What the executor touches outside itself: the temporary files (path to content), the
  child processes started so far and those killed (by the script each was given), and
  the calls of \<open>unlink\<close>. Files that a child writes are not part of the state.
\<close>

type_synonym bytes = "nat list"

record world =
  tempfiles :: "pystr \<rightharpoonup> bytes"
  spawned :: "pystr list"
  killed :: "pystr list"
  unlinked :: "pystr list"

text \<open>
  What the interpreter does with a script: it cannot be started, it exits after some time
  with a status and the bytes of its two output streams, or it never exits.
\<close>

datatype child_behaviour =
    SpawnFails exn
  | Exits nat int bytes bytes
  | Hangs

text \<open>
  The environment of one call: what \<open>NamedTemporaryFile\<close> does (the fresh name of the
  file it has created, or the exception it raises), what \<open>f.write(code)\<close> and the
  closing of the file do (the bytes that reach the file, in the encoding of the locale,
  or the exception raised), the decoding of the output of a child in that encoding, the
  behaviour of the interpreter on the content of the script file, the text \<open>str(e)\<close> of
  an exception, and whether \<open>unlink\<close> raises.
\<close>

record os_env =
  mkstemp :: "exn + pystr"
  write_text :: "pystr \<Rightarrow> exn + bytes"
  decode :: "bytes \<Rightarrow> pystr option"
  child :: "bytes option \<Rightarrow> child_behaviour"
  exn_str :: "exn \<Rightarrow> pystr"
  unlink_fails :: bool

text \<open>
  A stream captured with \<open>text=True\<close>: the bytes are decoded, which can fail, and the
  line ends \<open>\r\n\<close> and \<open>\r\<close> become \<open>\n\<close> (13 is CR, 10 is LF).
\<close>

definition universal_newlines :: "pystr \<Rightarrow> pystr" where
  "universal_newlines s = py_replace [13] [10] (py_replace [13, 10] [10] s)"

definition captured :: "os_env \<Rightarrow> bytes \<Rightarrow> pystr option" where
  "captured env stream = map_option universal_newlines (decode env stream)"

text \<open>
  \<open>subprocess.run(..., capture_output=True, text=True, timeout=timeout)\<close>. When the
  child cannot be started the exception of the start is raised and there is no child.
  When the child ends within the budget its streams are decoded: a completed process is
  returned, or \<open>UnicodeDecodeError\<close> is raised. When the budget ends first the child
  is killed and \<open>TimeoutExpired\<close> is raised.
\<close>

datatype run_outcome =
    Completed int pystr pystr
  | TimeoutExpired
  | Raised exn

definition subprocess_run :: "os_env \<Rightarrow> pystr \<Rightarrow> int \<Rightarrow> world \<Rightarrow> run_outcome \<times> world" where
  "subprocess_run env script timeout w =
     (case child env (tempfiles w script) of
        SpawnFails x \<Rightarrow> (Raised x, w)
      | Exits duration returncode out err \<Rightarrow>
          if int duration \<le> timeout then
            ((case captured env out of
                None \<Rightarrow> Raised UnicodeDecodeError
              | Some stdout \<Rightarrow>
                  (case captured env err of
                     None \<Rightarrow> Raised UnicodeDecodeError
                   | Some stderr \<Rightarrow> Completed returncode stdout stderr)),
             w\<lparr>spawned := spawned w @ [script]\<rparr>)
          else
            (TimeoutExpired,
             w\<lparr>spawned := spawned w @ [script], killed := killed w @ [script]\<rparr>)
      | Hangs \<Rightarrow>
          (TimeoutExpired,
           w\<lparr>spawned := spawned w @ [script], killed := killed w @ [script]\<rparr>))"

text \<open>
  \<open>Path(temp_path).unlink()\<close> inside \<open>try: ... except: pass\<close>: the call is made, and
  when it raises the file stays and nothing else happens.
\<close>

definition unlink_quietly :: "os_env \<Rightarrow> pystr \<Rightarrow> world \<Rightarrow> world" where
  "unlink_quietly env path w =
     (let w = w\<lparr>unlinked := unlinked w @ [path]\<rparr> in
      if unlink_fails env then w else w\<lparr>tempfiles := (tempfiles w)(path := None)\<rparr>)"

text \<open>
  What the \<open>try\<close> block of \<open>execute_diagram_code\<close> returns for each outcome of
  \<open>subprocess.run\<close>: the two branches on \<open>returncode\<close>, the handler of
  \<open>TimeoutExpired\<close> and the handler of \<open>Exception\<close>.
\<close>

definition result_of :: "os_env \<Rightarrow> int \<Rightarrow> run_outcome \<Rightarrow> bool \<times> pystr" where
  "result_of env timeout outcome =
     (case outcome of
        Completed returncode out err \<Rightarrow>
          if returncode = 0 then (True, out)
          else (False, str ''Execution error:'' @ [10] @ err)
      | TimeoutExpired \<Rightarrow>
          (False, str ''Execution timed out after '' @ py_str_int timeout @ str '' seconds'')
      | Raised x \<Rightarrow> (False, str ''Execution failed: '' @ exn_str env x))"

definition validation_failed_msg :: "pystr list \<Rightarrow> pystr" where
  "validation_failed_msg errors =
     str ''Code validation failed:'' @ [10] @
     py_join [10] (map (\<lambda>e. str ''  - '' @ e) errors)"

text \<open>
  \<open>execute_diagram_code\<close>. The validation and the \<open>with\<close> block that creates and
  writes the temporary file stand before the \<open>try\<close>: an exception of the validator
  leaves the function with nothing done, one of \<open>NamedTemporaryFile\<close> leaves it with
  no file, and one of \<open>f.write\<close> leaves it with the file created (and closed by the
  \<open>with\<close>, empty) and the \<open>finally\<close> clause never entered. From the \<open>try\<close> on,
  every path goes through \<open>finally\<close>. The dictionary of environment variables and the
  working directory handed to \<open>subprocess.run\<close> only bear on what the child does, which
  is \<open>child env\<close>. The result is what the source returns or raises, and the world
  afterwards.
\<close>

definition execute_diagram_code ::
  "policy \<Rightarrow> interpreter \<Rightarrow> os_env \<Rightarrow> pystr \<Rightarrow> int \<Rightarrow> world \<Rightarrow> (exn + bool \<times> pystr) \<times> world"
  where
  "execute_diagram_code P py env code timeout w =
     (case validate_code P py code of
        Inl x \<Rightarrow> (Inl x, w)
      | Inr (is_valid, errors) \<Rightarrow>
          if \<not> is_valid then (Inr (False, validation_failed_msg errors), w)
          else
            (case mkstemp env of
               Inl x \<Rightarrow> (Inl x, w)
             | Inr temp_path \<Rightarrow>
                 (case write_text env code of
                    Inl x \<Rightarrow> (Inl x, w\<lparr>tempfiles := (tempfiles w)(temp_path \<mapsto> [])\<rparr>)
                  | Inr content \<Rightarrow>
                      (let w = w\<lparr>tempfiles := (tempfiles w)(temp_path \<mapsto> content)\<rparr>;
                           (outcome, w) = subprocess_run env temp_path timeout w;
                           result = result_of env timeout outcome
                       in (Inr result, unlink_quietly env temp_path w)))))"

text \<open>
  An example: a world without temporary files, and a process whose locale encoding is
  ASCII, in which the interpreter behaves in a given way whatever the script is. The text
  of an exception is, in the example, the name of its class.
\<close>

definition ascii_write :: "pystr \<Rightarrow> exn + bytes" where
  "ascii_write s = (if list_all (\<lambda>c. c < 128) s then Inr s else Inl UnicodeEncodeError)"

definition ascii_decode :: "bytes \<Rightarrow> pystr option" where
  "ascii_decode stream = (if list_all (\<lambda>b. b < 128) stream then Some stream else None)"

fun class_name :: "exn \<Rightarrow> pystr" where
  "class_name ValueError = str ''ValueError''"
| "class_name UnicodeEncodeError = str ''UnicodeEncodeError''"
| "class_name UnicodeDecodeError = str ''UnicodeDecodeError''"
| "class_name RecursionError = str ''RecursionError''"
| "class_name MemoryError = str ''MemoryError''"
| "class_name RuntimeError = str ''RuntimeError''"
| "class_name OSError = str ''OSError''"

definition example_env :: "child_behaviour \<Rightarrow> bool \<Rightarrow> os_env" where
  "example_env behaviour unlink_raises =
     \<lparr>mkstemp = Inr (str ''/tmp/tmpq1.py''), write_text = ascii_write, decode = ascii_decode,
      child = (\<lambda>script. behaviour), exn_str = class_name, unlink_fails = unlink_raises\<rparr>"

definition empty_world :: world where
  "empty_world = \<lparr>tempfiles = Map.empty, spawned = [], killed = [], unlinked = []\<rparr>"

section \<open>Facts about the string operations\<close>

lemma re_sub_class_filter: "re_sub_class m s = filter (\<lambda>c. \<not> m c) s"
  by (induction s) auto

lemma str_dotdot: "str ''..'' = [46, 46]"
  by (simp add: str_def)

lemma strip_dotdot_Nil: "py_replace [46, 46] [] [] = []"
  by (simp add: py_replace.simps)

lemma strip_dotdot_single: "py_replace [46, 46] [] [c] = [c]"
  by (simp add: py_replace.simps [of _ _ "[c]"] py_replace.simps [of _ _ "[]"])

lemma strip_dotdot_pair:
  "py_replace [46, 46] [] (a # b # s) =
     (if a = 46 \<and> b = 46 then py_replace [46, 46] [] s
      else a # py_replace [46, 46] [] (b # s))"
  by (simp add: py_replace.simps [of _ _ "a # b # s"])

lemma strip_dotdot_other:
  "c \<noteq> 46 \<Longrightarrow> py_replace [46, 46] [] (c # s) = c # py_replace [46, 46] [] s"
  by (cases s) (simp_all add: strip_dotdot_single strip_dotdot_Nil strip_dotdot_pair)

lemma sublist_dotdot_Cons:
  "sublist [46, 46] (a # r) = ((a = (46::nat) \<and> (\<exists>t. r = 46 # t)) \<or> sublist [46, 46] r)"
  by (cases r) (auto simp: sublist_Cons_right)

lemma strip_dotdot_no_dotdot: "\<not> sublist [46, 46] (py_replace [46, 46] [] s)"
proof (induction s rule: induct_list012)
  case 1
  show ?case by (simp add: strip_dotdot_Nil)
next
  case (2 x)
  show ?case by (simp add: strip_dotdot_single sublist_dotdot_Cons)
next
  case (3 a b s)
  show ?case
  proof (cases "a = 46 \<and> b = 46")
    case True
    with 3 show ?thesis by (simp add: strip_dotdot_pair)
  next
    case False
    have "\<not> (a = 46 \<and> (\<exists>t. py_replace [46, 46] [] (b # s) = 46 # t))"
    proof (cases "a = 46")
      case True
      with False have "b \<noteq> 46" by simp
      then show ?thesis by (simp add: strip_dotdot_other)
    qed simp
    with False 3 show ?thesis
      by (simp add: strip_dotdot_pair sublist_dotdot_Cons)
  qed
qed

lemma strip_dotdot_fixpoint:
  "\<not> sublist [46, 46] s \<Longrightarrow> py_replace [46, 46] [] s = s"
proof (induction s rule: induct_list012)
  case 1
  show ?case by (simp add: strip_dotdot_Nil)
next
  case (2 x)
  show ?case by (simp add: strip_dotdot_single)
next
  case (3 a b s)
  from 3(3) have ab: "\<not> (a = 46 \<and> b = 46)" and rest: "\<not> sublist [46, 46] (b # s)"
    by (auto simp: sublist_dotdot_Cons)
  from rest 3(2) have "py_replace [46, 46] [] (b # s) = b # s" by simp
  with ab show ?case by (auto simp: strip_dotdot_pair)
qed

lemma strip_dotdot_subset: "set (py_replace [46, 46] [] s) \<subseteq> set s"
proof (induction s rule: induct_list012)
  case 1
  show ?case by (simp add: strip_dotdot_Nil)
next
  case (2 x)
  show ?case by (simp add: strip_dotdot_single)
next
  case (3 a b s)
  then show ?case by (auto simp: strip_dotdot_pair)
qed

lemma sublist_take: "sublist p (take n s) \<Longrightarrow> sublist p s"
  by (metis append_take_drop_id sublist_order.order_trans sublist_append_rightI)

lemma sanitize_output_length: "length (sanitize_output raw) \<le> 100"
  by (simp add: sanitize_output_def)

lemma sanitize_output_chars: "set (sanitize_output raw) \<inter> set output_unsafe_chars = {}"
proof -
  have "set (sanitize_output raw) \<subseteq> set (re_sub_class output_unsafe raw)"
    using strip_dotdot_subset set_take_subset
    by (fastforce simp: sanitize_output_def str_dotdot)
  then show ?thesis
    by (auto simp: re_sub_class_filter output_unsafe_def)
qed

lemma sanitize_output_no_dotdot: "\<not> sublist (str ''..'') (sanitize_output raw)"
  using strip_dotdot_no_dotdot sublist_take
  by (fastforce simp: sanitize_output_def str_dotdot)

lemma sanitize_output_fixpoint:
  assumes "length s \<le> 100" and "set s \<inter> set output_unsafe_chars = {}"
    and "\<not> sublist (str ''..'') s"
  shows "sanitize_output s = s"
proof -
  from assms(2) have "re_sub_class output_unsafe s = s"
    by (auto simp: re_sub_class_filter output_unsafe_def filter_id_conv)
  moreover from assms(3) have "py_replace (str ''..'') [] s = s"
    by (simp add: str_dotdot strip_dotdot_fixpoint)
  ultimately show ?thesis
    using assms(1) by (simp add: sanitize_output_def)
qed

section \<open>The file stem sanitizer\<close>

text \<open>
  C3. For every input string, \<open>sanitize_output\<close> returns a string of at most 100
  characters that contains none of the characters \<open>/ \ : * ? " < > |\<close> and no two
  adjacent dots, and applying \<open>sanitize_output\<close> to its own output returns that output
  unchanged. The single pass of \<open>replace\<close> is enough: it leaves at most one dot of every
  run of dots, and the characters between two runs stay where they are.
\<close>

theorem sanitize_output_confined_idempotent:
  "length (sanitize_output raw) \<le> 100 \<and>
   set (sanitize_output raw) \<inter> set (str ''/'' @ [92] @ str '':*?'' @ [34] @ str ''<>|'') = {} \<and>
   \<not> sublist (str ''..'') (sanitize_output raw) \<and>
   sanitize_output (sanitize_output raw) = sanitize_output raw"
proof -
  have chars: "set (sanitize_output raw) \<inter> set output_unsafe_chars = {}"
    by (rule sanitize_output_chars)
  have "sanitize_output (sanitize_output raw) = sanitize_output raw"
    by (rule sanitize_output_fixpoint)
      (rule sanitize_output_length chars sanitize_output_no_dotdot)+
  with chars show ?thesis
    by (simp add: sanitize_output_length sanitize_output_no_dotdot output_unsafe_chars_def)
qed

theorem sanitize_output_confined_idempotent_witness:
  "sanitize_output (str ''../../etc/passwd'') = str ''etcpasswd'' \<and>
   sanitize_output (str ''etcpasswd'') = str ''etcpasswd'' \<and>
   sanitize_output (str ''....'') = []"
proof -
  have e: "sanitize_output (str ''../../etc/passwd'') = str ''etcpasswd''"
    by code_simp
  have d: "sanitize_output (str ''....'') = []"
    by code_simp
  from sanitize_output_confined_idempotent [of "str ''../../etc/passwd''"]
  have "sanitize_output (sanitize_output (str ''../../etc/passwd'')) =
        sanitize_output (str ''../../etc/passwd'')"
    by simp
  with e d show ?thesis by simp
qed

section \<open>The display name sanitizer\<close>

lemma subseq_take_left: "subseq (take n xs) xs"
  by (metis append_take_drop_id subseq_order.order_refl list_emb_append2 list_emb_prefix
      append_Nil2)

text \<open>
  C8. For every input string, \<open>sanitize_name\<close> returns the input filtered to the
  characters of the allow-set (the letters \<open>a-z\<close> and \<open>A-Z\<close>, the digits, whitespace,
  hyphen, underscore, period, comma and \<open>! ? ( ) ' "\<close>), in their original order, cut
  to at most 200 characters; a string of at most 200 allowed characters comes back
  unchanged, and semicolons, backticks and the other shell metacharacters are dropped.
\<close>

theorem sanitize_name_filters_allow_set:
  "sanitize_name raw = take 200 (filter name_safe raw) \<and>
   subseq (sanitize_name raw) raw \<and>
   length (sanitize_name raw) \<le> 200 \<and>
   set (sanitize_name raw) \<subseteq> {c. name_safe c} \<and>
   (length raw \<le> 200 \<and> set raw \<subseteq> {c. name_safe c} \<longrightarrow> sanitize_name raw = raw) \<and>
   set (sanitize_name raw) \<inter> set (str '';`$&|<>{}[]*~#%^=+/:@'' @ [92]) = {}"
proof -
  have eq: "sanitize_name raw = take 200 (filter name_safe raw)"
    by (simp add: sanitize_name_def re_sub_class_filter)
  have sub: "subseq (sanitize_name raw) raw"
    unfolding eq
    by (rule subseq_order.order_trans [OF subseq_take_left subseq_filter_left])
  have safe: "set (sanitize_name raw) \<subseteq> {c. name_safe c}"
    unfolding eq using set_take_subset [of 200 "filter name_safe raw"] by auto
  have keep: "length raw \<le> 200 \<and> set raw \<subseteq> {c. name_safe c} \<longrightarrow> sanitize_name raw = raw"
  proof
    assume h: "length raw \<le> 200 \<and> set raw \<subseteq> {c. name_safe c}"
    then have "filter name_safe raw = raw"
      by (auto simp: filter_id_conv)
    with h show "sanitize_name raw = raw"
      by (simp add: eq)
  qed
  have meta: "set (str '';`$&|<>{}[]*~#%^=+/:@'' @ [92]) \<inter> {c. name_safe c} = {}"
    by (auto simp: str_def name_safe_def py_isspace_def)
  from safe meta
  have drop: "set (sanitize_name raw) \<inter> set (str '';`$&|<>{}[]*~#%^=+/:@'' @ [92]) = {}"
    by blast
  from eq sub safe keep drop show ?thesis by simp
qed

theorem sanitize_name_filters_allow_set_witness:
  "sanitize_name (str ''Cust; rm -rf `x` $HOME (v1.0)!'') = str ''Cust rm -rf x HOME (v1.0)!'' \<and>
   sanitize_name (str ''Cust rm -rf x HOME (v1.0)!'') = str ''Cust rm -rf x HOME (v1.0)!''"
proof -
  have safe: "set (str ''Cust rm -rf x HOME (v1.0)!'') \<subseteq> {c. name_safe c}"
    by (simp add: name_safe_def py_isspace_def str_def)
  have len: "length (str ''Cust rm -rf x HOME (v1.0)!'') \<le> 200"
    by (simp add: str_def)
  have flt: "take 200 (filter name_safe (str ''Cust; rm -rf `x` $HOME (v1.0)!'')) =
             str ''Cust rm -rf x HOME (v1.0)!''"
    by (simp add: name_safe_def py_isspace_def str_def)
  from sanitize_name_filters_allow_set [of "str ''Cust; rm -rf `x` $HOME (v1.0)!''"] flt
  have one: "sanitize_name (str ''Cust; rm -rf `x` $HOME (v1.0)!'') =
             str ''Cust rm -rf x HOME (v1.0)!''"
    by simp
  from sanitize_name_filters_allow_set [of "str ''Cust rm -rf x HOME (v1.0)!''"] safe len
  have two: "sanitize_name (str ''Cust rm -rf x HOME (v1.0)!'') =
             str ''Cust rm -rf x HOME (v1.0)!''"
    by blast
  from one two show ?thesis by simp
qed

section \<open>The import policy\<close>

lemma py_split_nonempty: "py_split sep s \<noteq> []"
  by (induction s) (auto split: list.splits)

lemma hd_py_split: "hd (py_split sep s) = takeWhile (\<lambda>c. c \<noteq> sep) s"
  by (induction s) (auto split: list.splits simp: py_split_nonempty)

lemma is_submodule_of_allowed_iff:
  "is_submodule_of_allowed m as = (\<exists>a\<in>set as. prefix (a @ str ''.'') m)"
  by (induction as) auto

lemma is_allowed_import_iff:
  "is_allowed_import P m =
     (takeWhile (\<lambda>c. c \<noteq> 46) m \<notin> set (blocked_imports P) \<and>
      (m \<in> set (allowed_imports P) \<or> (\<exists>a\<in>set (allowed_imports P). prefix (a @ str ''.'') m)))"
  by (simp add: is_allowed_import_def hd_py_split is_submodule_of_allowed_iff)

lemma visit_Import_single:
  "visit P (Import [m]) errs =
     (if is_allowed_import P m then errs else errs @ [blocked_import_msg m])"
  by simp

lemma visit_ImportFrom_Some:
  "m \<noteq> [] \<Longrightarrow> visit P (ImportFrom (Some m) names) errs =
     (if is_allowed_import P m then errs else errs @ [blocked_import_msg m])"
  by simp

text \<open>
  C2. A module name of an import or from-import statement is accepted, that is no
  violation is recorded for it, if and only if its base segment (the text before the
  first dot) is not in the deny-set and the name is an entry of the allow-set or extends
  an entry by a dot and more. So a name with a denied base is rejected whatever the
  allow-set holds, and when \<open>a\<close> is the only allowed entry, \<open>a\<close> followed by a
  character other than a dot is rejected.
\<close>

theorem import_accepted_iff:
  "(is_allowed_import P m \<longleftrightarrow>
      takeWhile (\<lambda>c. c \<noteq> 46) m \<notin> set (blocked_imports P) \<and>
      (m \<in> set (allowed_imports P) \<or>
       (\<exists>a\<in>set (allowed_imports P). prefix (a @ str ''.'') m))) \<and>
   (visit P (Import [m]) errs = errs \<longleftrightarrow> is_allowed_import P m) \<and>
   (m \<noteq> [] \<longrightarrow> (visit P (ImportFrom (Some m) names) errs = errs \<longleftrightarrow> is_allowed_import P m)) \<and>
   (takeWhile (\<lambda>c. c \<noteq> 46) m \<in> set (blocked_imports P) \<longrightarrow> \<not> is_allowed_import P m) \<and>
   (allowed_imports P = [a] \<and> x \<noteq> 46 \<longrightarrow> \<not> is_allowed_import P (a @ x # rest))"
proof -
  have boundary: "allowed_imports P = [a] \<and> x \<noteq> 46 \<longrightarrow> \<not> is_allowed_import P (a @ x # rest)"
    by (auto simp: is_allowed_import_iff str_def)
  have "visit P (Import [m]) errs = errs \<longleftrightarrow> is_allowed_import P m"
    by (simp only: visit_Import_single) simp
  moreover
  have "m \<noteq> [] \<longrightarrow>
        (visit P (ImportFrom (Some m) names) errs = errs \<longleftrightarrow> is_allowed_import P m)"
    by (simp add: visit_ImportFrom_Some)
  moreover
  have "takeWhile (\<lambda>c. c \<noteq> 46) m \<in> set (blocked_imports P) \<longrightarrow> \<not> is_allowed_import P m"
    by (simp add: is_allowed_import_iff)
  ultimately show ?thesis
    using boundary is_allowed_import_iff [of P m] by blast
qed

theorem import_accepted_iff_witness:
  "is_allowed_import policy (str ''diagrams.azure.compute'') \<and>
   \<not> is_allowed_import policy (str ''os.path'') \<and>
   visit policy (Import [str ''os.path'']) [] \<noteq> [] \<and>
   \<not> is_allowed_import
        \<lparr>allowed_imports = [str ''pkg.allowed''], blocked_imports = [],
         blocked_builtins = [], blocked_attributes = []\<rparr>
        (str ''pkg.allowedx'')"
proof -
  let ?P = "\<lparr>allowed_imports = [str ''pkg.allowed''], blocked_imports = [],
             blocked_builtins = [], blocked_attributes = []\<rparr>"
  have ok: "takeWhile (\<lambda>c. c \<noteq> 46) (str ''diagrams.azure.compute'') \<notin> set (blocked_imports policy) \<and>
            str ''diagrams.azure.compute'' \<in> set (allowed_imports policy)"
    by (simp add: policy_def ALLOWED_IMPORTS_def BLOCKED_IMPORTS_def str_def)
  have denied: "takeWhile (\<lambda>c. c \<noteq> 46) (str ''os.path'') \<in> set (blocked_imports policy)"
    by (simp add: policy_def BLOCKED_IMPORTS_def str_def)
  have split: "str ''pkg.allowedx'' = str ''pkg.allowed'' @ 120 # []"
    by (simp add: str_def)
  have one: "is_allowed_import policy (str ''diagrams.azure.compute'')"
    using import_accepted_iff [of policy "str ''diagrams.azure.compute''"] ok by blast
  have two: "\<not> is_allowed_import policy (str ''os.path'')"
    using import_accepted_iff [of policy "str ''os.path''"] denied by blast
  have three: "visit policy (Import [str ''os.path'']) [] \<noteq> []"
    using import_accepted_iff [of policy "str ''os.path'' " "[]"] two by blast
  have four: "\<not> is_allowed_import ?P (str ''pkg.allowedx'')"
    using import_accepted_iff [of ?P "[]" "[]" "[]" "str ''pkg.allowed''" 120 "[]"] split
    by simp
  from one two three four show ?thesis by blast
qed

section \<open>The traversal\<close>

lemma fold_visit_collect:
  assumes "\<And>x e. x \<in> set xs \<Longrightarrow> visit P x e = e @ concat (map (violations_at P) (subtrees x))"
  shows "fold (visit P) xs errs = errs @ concat (map (violations_at P) (concat (map subtrees xs)))"
  using assms by (induction xs arbitrary: errs) simp_all

lemma fold_import_names:
  "fold (\<lambda>module_name errors.
           if \<not> is_allowed_import P module_name
           then errors @ [blocked_import_msg module_name] else errors) names errs =
   errs @ map blocked_import_msg (filter (\<lambda>m. \<not> is_allowed_import P m) names)"
  by (induction names arbitrary: errs) simp_all

lemma visit_collects:
  "visit P t errs = errs @ concat (map (violations_at P) (subtrees t))"
proof (induction t arbitrary: errs)
  case (Import names)
  show ?case by (simp add: fold_import_names)
next
  case (ImportFrom module names)
  show ?case by (cases module) simp_all
next
  case (Call func args)
  have f: "\<And>e. visit P func e = e @ concat (map (violations_at P) (subtrees func))"
    by (rule Call.IH(1))
  have a: "\<And>e. fold (visit P) args e =
            e @ concat (map (violations_at P) (concat (map subtrees args)))"
    by (rule fold_visit_collect) (rule Call.IH(2))
  have pre: "(case func of
                Name ident \<Rightarrow>
                  if ident \<in> set (blocked_builtins P) then errs @ [blocked_builtin_msg ident]
                  else errs
              | Attribute v attr \<Rightarrow>
                  if attr \<in> set (blocked_builtins P) then errs @ [blocked_builtin_msg attr]
                  else errs
              | _ \<Rightarrow> errs) = errs @ violations_at P (Call func args)"
    by (cases func) simp_all
  show ?case
    by (simp add: pre f a)
next
  case (Attribute t attr)
  then show ?case by simp
next
  case (Name ident)
  show ?case by simp
next
  case (Other children)
  have "fold (visit P) children errs =
        errs @ concat (map (violations_at P) (concat (map subtrees children)))"
    by (rule fold_visit_collect) (rule Other.IH)
  then show ?case by simp
qed

lemma validate_parsed:
  "parse py code = Parsed tree \<Longrightarrow> depth tree \<le> max_depth py \<Longrightarrow>
   validate P py code = Inr (concat (map (violations_at P) (subtrees tree)))"
  by (simp add: validate_def visit_collects)

lemma validate_syntax_error:
  "parse py code = SyntaxError e \<Longrightarrow> validate P py code = Inr [syntax_error_msg e]"
  by (simp add: validate_def)

lemma parse_example_py:
  "\<not> list_ex is_surrogate code \<Longrightarrow> parse (example_py outcome) code = outcome"
  by (simp add: example_py_def ast_parse_def)

lemma depth_attribute_chain: "depth (attribute_chain n) = Suc n"
  by (induction n) simp_all

text \<open>
  C7, as it is stated, fails for two kinds of code string. A string that holds a
  surrogate code point does not parse, and \<open>validate\<close> does not return a syntax
  violation: \<open>ast.parse\<close> raises \<open>UnicodeEncodeError\<close>, which the handler for
  \<open>SyntaxError\<close> does not catch. A string that parses to a tree deeper than the visitor
  can walk (here \<open>x\<close> followed by 400 times \<open>.a\<close>) yields no list of violations:
  the traversal raises \<open>RecursionError\<close>.
\<close>

theorem validate_raises_on_surrogate_or_deep_tree:
  "validate policy (example_py (Parsed (Other []))) (str ''x = '' @ [34, 56575, 34]) =
     Inl UnicodeEncodeError \<and>
   validate policy (example_py (Parsed (attribute_chain 400)))
     (str ''x'' @ concat (replicate 400 (str ''.a''))) = Inl RecursionError"
proof -
  have one: "validate policy (example_py (Parsed (Other []))) (str ''x = '' @ [34, 56575, 34]) =
     Inl UnicodeEncodeError"
    by (simp add: validate_def example_py_def ast_parse_def is_surrogate_def str_def)
  have "\<not> list_ex is_surrogate (str ''x'' @ concat (replicate 400 (str ''.a'')))"
    by (auto simp: list_ex_iff is_surrogate_def str_def)
  then have "parse (example_py (Parsed (attribute_chain 400)))
               (str ''x'' @ concat (replicate 400 (str ''.a''))) = Parsed (attribute_chain 400)"
    by (rule parse_example_py)
  then have two: "validate policy (example_py (Parsed (attribute_chain 400)))
     (str ''x'' @ concat (replicate 400 (str ''.a''))) = Inl RecursionError"
    by (simp add: validate_def depth_attribute_chain) (simp add: example_py_def)
  from one two show ?thesis by (rule conjI)
qed

text \<open>
  C7, amended. When the parser raises \<open>SyntaxError\<close>, \<open>validate\<close> returns exactly
  one violation, the syntax violation, \<open>is_valid\<close> is false, and the result does not
  depend on the tables: no import, builtin or attribute check is made. When the code
  parses to a tree that the visitor can walk within the recursion limit, the result is
  the list of the findings at every node of the tree, in the order of one pre-order walk:
  the traversal does not stop at the first finding.
\<close>

theorem validate_syntax_short_circuit_else_exhaustive:
  "(parse py code = SyntaxError e \<longrightarrow>
      validate P py code = Inr [syntax_error_msg e] \<and>
      validate_code P py code = Inr (False, [syntax_error_msg e]) \<and>
      validate P' py code = validate P py code) \<and>
   (parse py code = Parsed tree \<and> depth tree \<le> max_depth py \<longrightarrow>
      validate P py code = Inr (concat (map (violations_at P) (subtrees tree))) \<and>
      validate_code P py code =
        Inr (concat (map (violations_at P) (subtrees tree)) = [],
             concat (map (violations_at P) (subtrees tree))))"
  by (simp add: validate_parsed validate_syntax_error validate_code_def)

theorem validate_syntax_short_circuit_else_exhaustive_witness:
  "validate policy (example_py (SyntaxError (str ''invalid syntax (<unknown>, line 1)'')))
     (str ''import os('') =
     Inr [str ''Syntax error: invalid syntax (<unknown>, line 1)''] \<and>
   validate policy
     (example_py (Parsed (Other [Import [str ''os'', str ''sys''],
                                 Other [Call (Name (str ''eval''))
                                          [Attribute (Name (str ''x'')) (str ''__class__'')]]])))
     (str ''import os, sys; eval(x.__class__)'') =
     Inr [blocked_import_msg (str ''os''), blocked_import_msg (str ''sys''),
          blocked_builtin_msg (str ''eval''), blocked_attribute_msg (str ''__class__'')]"
proof -
  let ?tree = "Other [Import [str ''os'', str ''sys''],
                      Other [Call (Name (str ''eval''))
                               [Attribute (Name (str ''x'')) (str ''__class__'')]]]"
  let ?bad = "example_py (SyntaxError (str ''invalid syntax (<unknown>, line 1)''))"
  let ?good = "example_py (Parsed ?tree)"
  have p1: "parse ?bad (str ''import os('') =
            SyntaxError (str ''invalid syntax (<unknown>, line 1)'')"
    by (rule parse_example_py) (simp add: is_surrogate_def str_def)
  have p2: "parse ?good (str ''import os, sys; eval(x.__class__)'') = Parsed ?tree"
    by (rule parse_example_py) (simp add: is_surrogate_def str_def)
  have d: "depth ?tree \<le> max_depth ?good"
    by (simp add: example_py_def)
  have msg: "syntax_error_msg (str ''invalid syntax (<unknown>, line 1)'') =
             str ''Syntax error: invalid syntax (<unknown>, line 1)''"
    by (simp add: syntax_error_msg_def str_def)
  have os: "\<not> is_allowed_import policy (str ''os'')"
    by (simp add: is_allowed_import_def policy_def BLOCKED_IMPORTS_def str_def)
  have sys: "\<not> is_allowed_import policy (str ''sys'')"
    by (simp add: is_allowed_import_def policy_def BLOCKED_IMPORTS_def str_def)
  have ev: "str ''eval'' \<in> set (blocked_builtins policy)"
    by (simp add: policy_def BLOCKED_BUILTINS_def str_def)
  have cl: "str ''__class__'' \<in> set (blocked_attributes policy)"
    by (simp add: policy_def BLOCKED_ATTRIBUTES_def str_def)
  have all: "concat (map (violations_at policy) (subtrees ?tree)) =
             [blocked_import_msg (str ''os''), blocked_import_msg (str ''sys''),
              blocked_builtin_msg (str ''eval''), blocked_attribute_msg (str ''__class__'')]"
    by (simp add: os sys ev cl)
  have one: "validate policy ?bad (str ''import os('') =
             Inr [str ''Syntax error: invalid syntax (<unknown>, line 1)'']"
    using validate_syntax_short_circuit_else_exhaustive
      [of ?bad "str ''import os(''" "str ''invalid syntax (<unknown>, line 1)''" policy policy
          ?tree] p1
    by (simp add: msg)
  have two: "validate policy ?good (str ''import os, sys; eval(x.__class__)'') =
             Inr (concat (map (violations_at policy) (subtrees ?tree)))"
    using validate_syntax_short_circuit_else_exhaustive
      [of ?good "str ''import os, sys; eval(x.__class__)''" "[]" policy policy ?tree] p2 d
    by blast
  from one two all show ?thesis by simp
qed

section \<open>Relative imports\<close>






section \<open>The output path\<close>

lemma in_allowed_dirs_resolved:
  assumes "\<forall>d\<in>set dirs. \<exists>root. allowed_path env d = Inr root"
  shows "in_allowed_dirs env path dirs =
           Inr (\<exists>d\<in>set dirs. \<exists>root. allowed_path env d = Inr root \<and> prefix root path)"
  using assms
proof (induction dirs)
  case Nil
  show ?case by simp
next
  case (Cons d dirs)
  from Cons.prems obtain root where r: "allowed_path env d = Inr root"
    by auto
  from Cons have ih: "in_allowed_dirs env path dirs =
           Inr (\<exists>d\<in>set dirs. \<exists>root. allowed_path env d = Inr root \<and> prefix root path)"
    by simp
  show ?case
    by (auto simp: r ih relative_to_def)
qed

lemma validate_output_path_resolved:
  assumes "set dirs = ALLOWED_OUTPUT_DIRS"
    and "resolve env p = Inr path"
    and "\<forall>d\<in>ALLOWED_OUTPUT_DIRS. \<exists>root. allowed_path env d = Inr root"
    and "cwd env = Inr working"
  shows "validate_output_path env dirs p =
           (if under_allowed env working path then Inr (True, None)
            else Inr (False, Some (not_allowed_msg dirs)))"
proof -
  define inside where
    "inside = (\<exists>d\<in>set dirs. \<exists>root. allowed_path env d = Inr root \<and> prefix root path)"
  from assms(1,3) have "\<forall>d\<in>set dirs. \<exists>root. allowed_path env d = Inr root"
    by simp
  then have loop: "in_allowed_dirs env path dirs = Inr inside"
    unfolding inside_def by (rule in_allowed_dirs_resolved)
  have under: "under_allowed env working path = (prefix working path \<or> inside)"
    by (simp add: under_allowed_def inside_def assms(1))
  show ?thesis
  proof (cases inside)
    case True
    then show ?thesis
      by (simp add: validate_output_path_def assms(2) loop under)
  next
    case False
    then show ?thesis
      by (simp add: validate_output_path_def assms(2,4) loop under relative_to_def)
  qed
qed

lemma sublist_py_join: "d \<in> set xs \<Longrightarrow> sublist d (py_join sep xs)"
proof (induction sep xs rule: py_join.induct)
  case (1 sep)
  then show ?case by simp
next
  case (2 sep x)
  then show ?case by simp
next
  case (3 sep x y ys)
  show ?case
  proof (cases "d = x")
    case True
    then show ?thesis by (simp add: sublist_append_rightI)
  next
    case False
    with 3 have "sublist d (py_join sep (y # ys))" by simp
    then obtain ps ss where "py_join sep (y # ys) = ps @ d @ ss"
      by (auto simp: sublist_def)
    then have "py_join sep (x # y # ys) = (x @ sep @ ps) @ d @ ss"
      by simp
    then show ?thesis
      unfolding sublist_def by blast
  qed
qed

text \<open>
  C4, amended. For every path string, in a run in which \<open>pathlib\<close> resolves the
  path, the directories of the table and the working directory without raising,
  \<open>validate_output_path\<close> returns \<open>(True, None)\<close> if and only if the resolved path
  is equal to or below the working directory or the resolved, user-expanded form of one
  of \<open>.\<close>, \<open>/mnt/user-data/outputs\<close>, \<open>/tmp\<close> and \<open>~/outputs\<close>; otherwise it
  returns \<open>False\<close> with the message that lists the allowed directories, joined in the
  order in which this run iterates over the set, whatever that order is.
\<close>

theorem validate_output_path_allowed_iff:
  assumes "set dirs = ALLOWED_OUTPUT_DIRS"
    and "resolve env p = Inr path"
    and "\<forall>d\<in>ALLOWED_OUTPUT_DIRS. \<exists>root. allowed_path env d = Inr root"
    and "cwd env = Inr working"
  shows
  "(validate_output_path env dirs p = Inr (True, None) \<longleftrightarrow>
      prefix working path \<or>
      (\<exists>d\<in>{str ''.'', str ''/mnt/user-data/outputs'', str ''/tmp'', str ''~/outputs''}.
         \<exists>root. allowed_path env d = Inr root \<and> prefix root path)) \<and>
   (validate_output_path env dirs p \<noteq> Inr (True, None) \<longrightarrow>
      validate_output_path env dirs p =
        Inr (False, Some (str ''Output path not allowed. Allowed directories: '' @
                          py_join (str '', '') dirs))) \<and>
   (\<forall>d\<in>{str ''.'', str ''/mnt/user-data/outputs'', str ''/tmp'', str ''~/outputs''}.
      sublist d (py_join (str '', '') dirs))"
proof -
  note eq = validate_output_path_resolved [OF assms]
  have iff: "validate_output_path env dirs p = Inr (True, None) \<longleftrightarrow>
      prefix working path \<or>
      (\<exists>d\<in>{str ''.'', str ''/mnt/user-data/outputs'', str ''/tmp'', str ''~/outputs''}.
         \<exists>root. allowed_path env d = Inr root \<and> prefix root path)"
    unfolding eq under_allowed_def ALLOWED_OUTPUT_DIRS_def by simp
  have denied: "validate_output_path env dirs p \<noteq> Inr (True, None) \<longrightarrow>
      validate_output_path env dirs p =
        Inr (False, Some (str ''Output path not allowed. Allowed directories: '' @
                          py_join (str '', '') dirs))"
    unfolding eq by (simp add: not_allowed_msg_def)
  have listed: "\<forall>d\<in>{str ''.'', str ''/mnt/user-data/outputs'', str ''/tmp'', str ''~/outputs''}.
      sublist d (py_join (str '', '') dirs)"
    using assms(1) sublist_py_join [of _ dirs "str '', ''"]
    unfolding ALLOWED_OUTPUT_DIRS_def by blast
  from iff denied listed show ?thesis by blast
qed

lemmas example_fs_simps =
  example_fs_def posix_env_def posix_resolve_def posix_expanduser_def path_parts_def
  is_absolute_def allowed_path_def source_order_def str_def

lemma source_order_set: "set source_order = ALLOWED_OUTPUT_DIRS"
  by (simp add: source_order_def ALLOWED_OUTPUT_DIRS_def)

lemma example_roots:
  "\<forall>d\<in>ALLOWED_OUTPUT_DIRS. \<exists>root. allowed_path (posix_env example_fs) d = Inr root"
  by (simp add: ALLOWED_OUTPUT_DIRS_def) (simp add: example_fs_simps)

lemma example_cwd: "cwd (posix_env example_fs) = Inr [str ''work'']"
  by (simp add: example_fs_simps)

theorem validate_output_path_allowed_iff_witness:
  "validate_output_path (posix_env example_fs) source_order (str ''/tmp/../tmp/./out'') =
     Inr (True, None) \<and>
   validate_output_path (posix_env example_fs) source_order (str ''sub/diagram'') =
     Inr (True, None) \<and>
   validate_output_path (posix_env example_fs) source_order (str ''/etc/passwd'') =
     Inr (False, Some (str ''Output path not allowed. Allowed directories: '' @
                       str ''., /mnt/user-data/outputs, /tmp, ~/outputs''))"
proof -
  let ?env = "posix_env example_fs"
  note rule = validate_output_path_allowed_iff [OF source_order_set _ example_roots example_cwd]
  have r1: "resolve ?env (str ''/tmp/../tmp/./out'') = Inr [str ''tmp'', str ''out'']"
    by (simp add: example_fs_simps)
  have r2: "resolve ?env (str ''sub/diagram'') = Inr [str ''work'', str ''sub'', str ''diagram'']"
    by (simp add: example_fs_simps)
  have r3: "resolve ?env (str ''/etc/passwd'') = Inr [str ''etc'', str ''passwd'']"
    by (simp add: example_fs_simps)
  have tmp: "allowed_path ?env (str ''/tmp'') = Inr [str ''tmp'']"
    by (simp add: example_fs_simps)
  have rhs1: "\<exists>d\<in>{str ''.'', str ''/mnt/user-data/outputs'', str ''/tmp'', str ''~/outputs''}.
                \<exists>root. allowed_path ?env d = Inr root \<and> prefix root [str ''tmp'', str ''out'']"
    by (rule bexI [of _ "str ''/tmp''"]) (simp_all add: tmp)
  have one: "validate_output_path ?env source_order (str ''/tmp/../tmp/./out'') =
             Inr (True, None)"
    using rule [OF r1] rhs1 by blast
  have rhs2: "prefix [str ''work''] [str ''work'', str ''sub'', str ''diagram'']"
    by simp
  have two: "validate_output_path ?env source_order (str ''sub/diagram'') = Inr (True, None)"
    using rule [OF r2] rhs2 by blast
  have etc: "\<not> (prefix [str ''work''] [str ''etc'', str ''passwd''] \<or>
      (\<exists>d\<in>{str ''.'', str ''/mnt/user-data/outputs'', str ''/tmp'', str ''~/outputs''}.
         \<exists>root. allowed_path ?env d = Inr root \<and> prefix root [str ''etc'', str ''passwd'']))"
    by (simp add: example_fs_simps)
  have joined: "py_join (str '', '') source_order =
                str ''., /mnt/user-data/outputs, /tmp, ~/outputs''"
    by (simp add: source_order_def str_def)
  from rule [OF r3] etc
  have "validate_output_path ?env source_order (str ''/etc/passwd'') =
        Inr (False, Some (str ''Output path not allowed. Allowed directories: '' @
                          py_join (str '', '') source_order))"
    by blast
  then have three: "validate_output_path ?env source_order (str ''/etc/passwd'') =
     Inr (False, Some (str ''Output path not allowed. Allowed directories: '' @
                       str ''., /mnt/user-data/outputs, /tmp, ~/outputs''))"
    by (simp only: joined)
  from one two three show ?thesis by blast
qed

text \<open>
  C4, as it is stated, fails: there are path strings for which the function returns
  neither verdict. \<open>Path(output_path).resolve()\<close> stands outside any \<open>try\<close>, and on
  a string that holds the code point 0 it raises \<open>ValueError\<close>, which leaves
  \<open>validate_output_path\<close>.
\<close>

theorem validate_output_path_raises_on_null:
  "validate_output_path (posix_env example_fs) source_order (str ''diagram'' @ [0]) =
     Inl ValueError"
  by (simp add: validate_output_path_def example_fs_simps)

section \<open>Sanitized output names\<close>







section \<open>The executor\<close>

lemma validate_code_Inr:
  "validate P py code = Inr errs \<Longrightarrow> validate_code P py code = Inr (errs = [], errs)"
  by (simp add: validate_code_def)

lemma execute_raises:
  "validate P py code = Inl x \<Longrightarrow> execute_diagram_code P py env code timeout w = (Inl x, w)"
  by (simp add: execute_diagram_code_def validate_code_def)

lemma execute_invalid:
  "validate P py code = Inr errs \<Longrightarrow> errs \<noteq> [] \<Longrightarrow>
   execute_diagram_code P py env code timeout w =
     (Inr (False, validation_failed_msg errs), w)"
  by (simp add: execute_diagram_code_def validate_code_def)

lemma execute_written:
  assumes "validate P py code = Inr []" and "mkstemp env = Inr tmp"
    and "write_text env code = Inr content"
  shows "execute_diagram_code P py env code timeout w =
     (Inr (result_of env timeout
             (fst (subprocess_run env tmp timeout
                     (w\<lparr>tempfiles := (tempfiles w)(tmp \<mapsto> content)\<rparr>)))),
      unlink_quietly env tmp
        (snd (subprocess_run env tmp timeout
                (w\<lparr>tempfiles := (tempfiles w)(tmp \<mapsto> content)\<rparr>))))"
  using assms
  by (simp add: execute_diagram_code_def validate_code_def Let_def split: prod.split)

lemma fst_subprocess_run:
  "fst (subprocess_run env script timeout w) =
     (case child env (tempfiles w script) of
        SpawnFails x \<Rightarrow> Raised x
      | Exits duration returncode out err \<Rightarrow>
          if int duration \<le> timeout then
            (case captured env out of
               None \<Rightarrow> Raised UnicodeDecodeError
             | Some stdout \<Rightarrow>
                 (case captured env err of
                    None \<Rightarrow> Raised UnicodeDecodeError
                  | Some stderr \<Rightarrow> Completed returncode stdout stderr))
          else TimeoutExpired
      | Hangs \<Rightarrow> TimeoutExpired)"
  by (simp add: subprocess_run_def split: child_behaviour.split)

lemma snd_subprocess_run:
  "tempfiles (snd (subprocess_run env script timeout w)) = tempfiles w"
  "unlinked (snd (subprocess_run env script timeout w)) = unlinked w"
  "spawned (snd (subprocess_run env script timeout w)) =
     (case child env (tempfiles w script) of
        SpawnFails x \<Rightarrow> spawned w | _ \<Rightarrow> spawned w @ [script])"
  "killed (snd (subprocess_run env script timeout w)) =
     (case child env (tempfiles w script) of
        SpawnFails x \<Rightarrow> killed w
      | Exits duration returncode out err \<Rightarrow>
          if int duration \<le> timeout then killed w else killed w @ [script]
      | Hangs \<Rightarrow> killed w @ [script])"
  by (simp_all add: subprocess_run_def split: child_behaviour.split)

lemma unlink_quietly_fields:
  "unlinked (unlink_quietly env path w) = unlinked w @ [path]"
  "spawned (unlink_quietly env path w) = spawned w"
  "killed (unlink_quietly env path w) = killed w"
  "tempfiles (unlink_quietly env path w) =
     (if unlink_fails env then tempfiles w else (tempfiles w)(path := None))"
  by (simp_all add: unlink_quietly_def Let_def)




lemma parse_example_pass:
  "parse (example_py (Parsed (Other []))) (str ''pass'') = Parsed (Other [])"
  by (rule parse_example_py) (simp add: is_surrogate_def str_def)

lemma validate_example_pass:
  "validate policy (example_py (Parsed (Other []))) (str ''pass'') = Inr []"
  by (simp add: validate_def parse_example_pass) (simp add: example_py_def)

lemma example_env_fields:
  "mkstemp (example_env b u) = Inr (str ''/tmp/tmpq1.py'')"
  "child (example_env b u) script = b"
  "unlink_fails (example_env b u) = u"
  "exn_str (example_env b u) = class_name"
  by (simp_all add: example_env_def)

lemma example_write_pass: "write_text (example_env b u) (str ''pass'') = Inr (str ''pass'')"
  by (simp add: example_env_def ascii_write_def str_def)

lemma example_captured:
  "captured (example_env b u) [] = Some []"
  "captured (example_env b u) (str ''done'') = Some (str ''done'')"
  "captured (example_env b u) (str ''Traceback'') = Some (str ''Traceback'')"
  "captured (example_env b u) [255, 10] = None"
  by (simp_all add: captured_def example_env_def ascii_decode_def universal_newlines_def
      py_replace.simps str_def)

text \<open>
  C1. When validation finds a violation, \<open>execute_diagram_code\<close> returns
  \<open>False\<close> with the header line followed by one line \<open>  - e\<close> per violation, in
  order, and the world is the one it started in: no temporary file was written, no child
  was started. So the call returns \<open>True\<close> only if the validation of that very code
  string is valid.
\<close>

theorem execute_rejects_before_any_effect:
  "(validate P py code = Inr errs \<and> errs \<noteq> [] \<longrightarrow>
      execute_diagram_code P py env code timeout w =
        (Inr (False, str ''Code validation failed:'' @ [10] @
                     py_join [10] (map (\<lambda>e. str ''  - '' @ e) errs)), w)) \<and>
   (fst (execute_diagram_code P py env code timeout w) = Inr (True, out) \<longrightarrow>
      validate_code P py code = Inr (True, []))"
proof -
  have rejected: "validate P py code = Inr errs \<and> errs \<noteq> [] \<longrightarrow>
      execute_diagram_code P py env code timeout w =
        (Inr (False, str ''Code validation failed:'' @ [10] @
                     py_join [10] (map (\<lambda>e. str ''  - '' @ e) errs)), w)"
    by (simp add: execute_invalid validation_failed_msg_def)
  have only_valid: "fst (execute_diagram_code P py env code timeout w) = Inr (True, out) \<longrightarrow>
      validate_code P py code = Inr (True, [])"
  proof (cases "validate P py code")
    case (Inl x)
    then show ?thesis by (simp add: execute_raises)
  next
    case (Inr found)
    show ?thesis
    proof (cases "found = []")
      case True
      with Inr show ?thesis by (simp add: validate_code_Inr)
    next
      case False
      with Inr show ?thesis by (simp add: execute_invalid)
    qed
  qed
  from rejected only_valid show ?thesis by (rule conjI)
qed

theorem execute_rejects_before_any_effect_witness:
  "execute_diagram_code policy (example_py (Parsed (Import [str ''os'', str ''sys''])))
     (example_env Hangs False) (str ''import os, sys'') 60 empty_world =
     (Inr (False, str ''Code validation failed:'' @ [10] @
                  str ''  - Blocked import: '' @ [39] @ str ''os'' @ [39, 10] @
                  str ''  - Blocked import: '' @ [39] @ str ''sys'' @ [39]),
      empty_world) \<and>
   fst (execute_diagram_code policy (example_py (Parsed (Other [])))
          (example_env (Exits 2 0 (str ''done'') []) False) (str ''pass'') 60 empty_world) =
     Inr (True, str ''done'') \<and>
   validate_code policy (example_py (Parsed (Other []))) (str ''pass'') = Inr (True, [])"
proof -
  let ?bad = "example_py (Parsed (Import [str ''os'', str ''sys'']))"
  let ?good = "example_py (Parsed (Other []))"
  let ?env = "example_env (Exits 2 0 (str ''done'') []) False"
  have os: "\<not> is_allowed_import policy (str ''os'')"
    by (simp add: is_allowed_import_def policy_def BLOCKED_IMPORTS_def str_def)
  have sys: "\<not> is_allowed_import policy (str ''sys'')"
    by (simp add: is_allowed_import_def policy_def BLOCKED_IMPORTS_def str_def)
  have p: "parse ?bad (str ''import os, sys'') = Parsed (Import [str ''os'', str ''sys''])"
    by (rule parse_example_py) (simp add: is_surrogate_def str_def)
  have v: "validate policy ?bad (str ''import os, sys'') =
           Inr [blocked_import_msg (str ''os''), blocked_import_msg (str ''sys'')]"
    by (simp add: validate_def p os sys) (simp add: example_py_def)
  have ne: "[blocked_import_msg (str ''os''), blocked_import_msg (str ''sys'')] \<noteq> []"
    by simp
  from execute_rejects_before_any_effect
    [of policy ?bad "str ''import os, sys''"
        "[blocked_import_msg (str ''os''), blocked_import_msg (str ''sys'')]"
        "example_env Hangs False" 60 empty_world] v ne
  have raw: "execute_diagram_code policy ?bad (example_env Hangs False)
               (str ''import os, sys'') 60 empty_world =
     (Inr (False, str ''Code validation failed:'' @ [10] @
                  py_join [10] (map (\<lambda>e. str ''  - '' @ e)
                    [blocked_import_msg (str ''os''), blocked_import_msg (str ''sys'')])),
      empty_world)"
    by blast
  have lines: "str ''Code validation failed:'' @ [10] @
              py_join [10] (map (\<lambda>e. str ''  - '' @ e)
                [blocked_import_msg (str ''os''), blocked_import_msg (str ''sys'')]) =
             str ''Code validation failed:'' @ [10] @
              str ''  - Blocked import: '' @ [39] @ str ''os'' @ [39, 10] @
              str ''  - Blocked import: '' @ [39] @ str ''sys'' @ [39]"
    by (simp add: blocked_import_msg_def str_def)
  have one: "execute_diagram_code policy ?bad (example_env Hangs False)
               (str ''import os, sys'') 60 empty_world =
     (Inr (False, str ''Code validation failed:'' @ [10] @
                  str ''  - Blocked import: '' @ [39] @ str ''os'' @ [39, 10] @
                  str ''  - Blocked import: '' @ [39] @ str ''sys'' @ [39]),
      empty_world)"
    by (simp only: raw lines)
  have two: "fst (execute_diagram_code policy ?good ?env (str ''pass'') 60 empty_world) =
             Inr (True, str ''done'')"
    by (simp add: execute_written [OF validate_example_pass example_env_fields(1)
          example_write_pass] fst_subprocess_run example_env_fields example_captured
        result_of_def)
  from two execute_rejects_before_any_effect
    [of policy ?good "str ''pass''" "[]" ?env 60 empty_world "str ''done''"]
  have three: "validate_code policy ?good (str ''pass'') = Inr (True, [])"
    by blast
  from one two three show ?thesis by blast
qed




lemma execute_unlinks_once_written:
  assumes "validate P py code = Inr []" and "mkstemp env = Inr tmp"
    and "write_text env code = Inr content"
  shows
  "unlinked (snd (execute_diagram_code P py env code timeout w)) = unlinked w @ [tmp] \<and>
   (\<not> unlink_fails env \<longrightarrow>
      tempfiles (snd (execute_diagram_code P py env code timeout w)) tmp = None)"
  by (simp add: execute_written [OF assms] snd_subprocess_run unlink_quietly_fields)

text \<open>
  C6 does not hold of the code. The temporary file is created and written before the
  \<open>try\<close> whose \<open>finally\<close> clause deletes it. For a code string that passes
  validation and that the encoding of the locale cannot encode (here U+3000, which
  \<open>sanitize_name\<close> keeps as whitespace, in an ASCII locale), \<open>f.write\<close> raises
  \<open>UnicodeEncodeError\<close>: the exception reaches the caller, the file exists
  afterwards, and \<open>unlink\<close> was never called. Once the file has been written, the
  cleanup does run on every path, as the lemma before this theorem says.
\<close>

theorem execute_leaks_file_when_write_raises:
  "validate_code policy (example_py (Parsed (Other []))) (str ''x = '' @ [34, 12288, 34]) =
     Inr (True, []) \<and>
   fst (execute_diagram_code policy (example_py (Parsed (Other [])))
          (example_env Hangs False) (str ''x = '' @ [34, 12288, 34]) 60 empty_world) =
     Inl UnicodeEncodeError \<and>
   tempfiles (snd (execute_diagram_code policy (example_py (Parsed (Other [])))
                     (example_env Hangs False) (str ''x = '' @ [34, 12288, 34]) 60
                     empty_world)) (str ''/tmp/tmpq1.py'') = Some [] \<and>
   unlinked (snd (execute_diagram_code policy (example_py (Parsed (Other [])))
                    (example_env Hangs False) (str ''x = '' @ [34, 12288, 34]) 60
                    empty_world)) = []"
proof -
  let ?py = "example_py (Parsed (Other []))"
  let ?code = "str ''x = '' @ [34, 12288, 34]"
  have p: "parse ?py ?code = Parsed (Other [])"
    by (rule parse_example_py) (simp add: is_surrogate_def str_def)
  have v: "validate_code policy ?py ?code = Inr (True, [])"
    by (simp add: validate_code_def validate_def p) (simp add: example_py_def)
  have wr: "write_text (example_env Hangs False) ?code = Inl UnicodeEncodeError"
    by (simp add: example_env_def ascii_write_def str_def)
  have "execute_diagram_code policy ?py (example_env Hangs False) ?code 60 empty_world =
          (Inl UnicodeEncodeError,
           empty_world\<lparr>tempfiles := (tempfiles empty_world)(str ''/tmp/tmpq1.py'' \<mapsto> [])\<rparr>)"
    by (simp add: execute_diagram_code_def v wr example_env_fields)
  with v show ?thesis
    by (simp add: empty_world_def)
qed

end
